theory Spec2Isabelle
  imports Main "HOL-Library.Word"
begin

unbundle bit_operations_syntax

section \<open>Data model\<close>

text \<open>
  \<^verbatim>\<open>phy_layout()\<close> of \<^verbatim>\<open>gateware/ad9361/cmosphy.py\<close>: the payload of a PHY
  stream endpoint is four 12-bit fields. The endpoint's \<^verbatim>\<open>valid\<close> signal travels with
  the payload; \<^verbatim>\<open>ready\<close> flows the other way and is kept apart.
\<close>

record phy_endpoint =
  valid :: bool
  ia :: "12 word"
  qa :: "12 word"
  ib :: "12 word"
  qb :: "12 word"

text \<open>
  A Migen slice \<^verbatim>\<open>data[k*16:(k+1)*16]\<close> of the 64-bit \<^verbatim>\<open>dma_layout(64)\<close> payload.
\<close>

definition field16 :: "nat \<Rightarrow> 64 word \<Rightarrow> 16 word" where
  "field16 k data = ucast (drop_bit (k * 16) data)"

text \<open>
  Four assignments to the four disjoint 16-bit slices of a 64-bit signal drive the
  whole signal: slice \<open>k\<close> holds the \<open>k\<close>-th value.
\<close>

definition cat16 :: "16 word \<Rightarrow> 16 word \<Rightarrow> 16 word \<Rightarrow> 16 word \<Rightarrow> 64 word" where
  "cat16 f0 f1 f2 f3 =
     ucast f0 OR push_bit 16 (ucast f1) OR push_bit 32 (ucast f2) OR push_bit 48 (ucast f3)"

text \<open>Modelled from the spec: \<^verbatim>\<open>_sign_extend\<close> of \<^verbatim>\<open>gateware/ad9361/bitmode.py\<close>, which
  \<^verbatim>\<open>core.py\<close> imports but which is not among the sources. The spec says of it:
  sign-extend to 16 bits, replicating the sign bit upward. The sign bit of a 12-bit
  field is bit 11; the four bits above it are bits 12 to 15.
\<close>

definition sign_extend :: "12 word \<Rightarrow> 16 word" where
  "sign_extend x = (if bit x 11 then ucast x OR 0xF000 else ucast x)"

section \<open>AD9361RFIC: data flow between the CDCs and the PHY\<close>

text \<open>
  \<^verbatim>\<open>core.py\<close>, TX: \<^verbatim>\<open>tx_cdc.source.connect(self.phy.sink, keep={"valid", "ready"})\<close>
  and the four assignments of the 16-bit slices of \<^verbatim>\<open>tx_cdc.source.data\<close> to the
  12-bit fields of \<^verbatim>\<open>phy.sink\<close>. An assignment to a narrower signal keeps the low
  bits.
\<close>

definition tx_phy_sink :: "bool \<Rightarrow> 64 word \<Rightarrow> phy_endpoint" where
  "tx_phy_sink tx_cdc_source_valid tx_cdc_source_data =
     \<lparr> valid = tx_cdc_source_valid,
       ia = ucast (field16 0 tx_cdc_source_data),
       qa = ucast (field16 1 tx_cdc_source_data),
       ib = ucast (field16 2 tx_cdc_source_data),
       qb = ucast (field16 3 tx_cdc_source_data) \<rparr>"

text \<open>
  \<^verbatim>\<open>core.py\<close>, RX: \<^verbatim>\<open>self.phy.source.connect(rx_cdc.sink, keep={"valid", "ready"})\<close>
  and the four assignments of the sign-extended PHY fields to the 16-bit slices of
  \<^verbatim>\<open>rx_cdc.sink.data\<close>.
\<close>

definition rx_cdc_sink_valid :: "phy_endpoint \<Rightarrow> bool" where
  "rx_cdc_sink_valid src = valid src"

definition rx_cdc_sink_data :: "phy_endpoint \<Rightarrow> 64 word" where
  "rx_cdc_sink_data src =
     cat16 (sign_extend (ia src)) (sign_extend (qa src))
           (sign_extend (ib src)) (sign_extend (qb src))"

text \<open>
  The signals of one step at the boundary between the CDCs and the PHY.
  \<^verbatim>\<open>self.enable_datapath = Signal(reset=1)\<close> is declared under "Controls" and appears
  in no other statement of \<^verbatim>\<open>core.py\<close>.
\<close>

record rfic_signals =
  enable_datapath :: bool
  tx_cdc_source_valid :: bool
  tx_cdc_source_data :: "64 word"
  phy_sink_ready :: bool
  phy_source :: phy_endpoint
  rx_cdc_sink_ready :: bool

definition phy_sink :: "rfic_signals \<Rightarrow> phy_endpoint" where
  "phy_sink r = tx_phy_sink (tx_cdc_source_valid r) (tx_cdc_source_data r)"

definition tx_cdc_source_ready :: "rfic_signals \<Rightarrow> bool" where
  "tx_cdc_source_ready r = phy_sink_ready r"

definition phy_source_ready :: "rfic_signals \<Rightarrow> bool" where
  "phy_source_ready r = rx_cdc_sink_ready r"

text \<open>A word is transferred on the step where valid and ready both hold.\<close>

definition tx_transfer :: "rfic_signals \<Rightarrow> bool" where
  "tx_transfer r = (valid (phy_sink r) \<and> tx_cdc_source_ready r)"

definition rx_transfer :: "rfic_signals \<Rightarrow> bool" where
  "rx_transfer r = (rx_cdc_sink_valid (phy_source r) \<and> phy_source_ready r)"

subsection \<open>Elaboration\<close>

datatype phy_class = AD9361PHY | AD9361CMOSPHY

datatype error = KeyError string

text \<open>The dictionary lookup \<^verbatim>\<open>{'lvds': AD9361PHY, 'cmos': AD9361CMOSPHY}[phy_mode]\<close>.\<close>

definition phy_cls :: "string \<Rightarrow> error + phy_class" where
  "phy_cls phy_mode =
     (if phy_mode = ''lvds'' then Inr AD9361PHY
      else if phy_mode = ''cmos'' then Inr AD9361CMOSPHY
      else Inl (KeyError phy_mode))"

text \<open>
  What \<^verbatim>\<open>AD9361RFIC.__init__\<close> builds: the PHY of the selected class, with the TX
  pipeline connected to its sink and its source connected to the RX pipeline whatever
  the class, and the control \<^verbatim>\<open>enable_datapath\<close> at its reset value. Neither
  \<^verbatim>\<open>__init__\<close> nor \<^verbatim>\<open>AD9361CMOSPHY.__init__\<close> has a \<^verbatim>\<open>raise\<close> or an
  \<^verbatim>\<open>assert\<close>; the lookup is the only statement that can fail.
\<close>

record rfic =
  phy :: phy_class
  tx_connected :: bool
  rx_connected :: bool
  enable_datapath_reset :: bool

definition AD9361RFIC :: "string \<Rightarrow> error + rfic" where
  "AD9361RFIC phy_mode =
     (case phy_cls phy_mode of
        Inl e \<Rightarrow> Inl e
      | Inr c \<Rightarrow> Inr \<lparr> phy = c, tx_connected = True, rx_connected = True,
                       enable_datapath_reset = True \<rparr>)"

subsection \<open>add_prbs\<close>

text \<open>
  \<^verbatim>\<open>add_prbs\<close>, PRBS TX: a later combinatorial statement overrides an earlier one, so
  under \<^verbatim>\<open>prbs_tx.fields.enable\<close> the three assignments of the \<^verbatim>\<open>If\<close> replace what
  \<^verbatim>\<open>__init__\<close> drives on \<^verbatim>\<open>phy.sink.valid\<close>, \<^verbatim>\<open>phy.sink.ia\<close> and
  \<^verbatim>\<open>phy.sink.ib\<close>. The generator (\<^verbatim>\<open>gateware/ad9361/prbs.py\<close>) is not among the
  sources: its output \<^verbatim>\<open>prbs_generator.o\<close> is a parameter, taken as the 12 bits that
  land on a PHY field.
\<close>

definition add_prbs_phy_sink :: "bool \<Rightarrow> 12 word \<Rightarrow> phy_endpoint \<Rightarrow> phy_endpoint" where
  "add_prbs_phy_sink prbs_tx_enable prbs_generator_o s =
     (if prbs_tx_enable
      then s\<lparr> valid := True, ia := prbs_generator_o, ib := prbs_generator_o \<rparr>
      else s)"

definition prbs_generator_reset :: "bool \<Rightarrow> bool" where
  "prbs_generator_reset prbs_tx_enable = (\<not> prbs_tx_enable)"

definition prbs_generator_ce :: "rfic_signals \<Rightarrow> bool" where
  "prbs_generator_ce r = phy_sink_ready r"

text \<open>
  \<^verbatim>\<open>add_prbs\<close>, PRBS RX: \<^verbatim>\<open>synced.eq(1)\<close>, then for each checker of the loop over
  \<^verbatim>\<open>[phy.source.ia, phy.source.ib]\<close> the statement
  \<^verbatim>\<open>If(~prbs_checker.synced, synced.eq(0))\<close>. The checker is not among the sources:
  the \<^verbatim>\<open>synced\<close> outputs of the checkers are parameters.
\<close>

definition prbs_checker_i :: "phy_endpoint \<Rightarrow> 12 word list" where
  "prbs_checker_i src = [ia src, ib src]"

definition prbs_checker_ce :: "phy_endpoint \<Rightarrow> bool" where
  "prbs_checker_ce src = valid src"

definition prbs_rx_synced :: "bool list \<Rightarrow> bool" where
  "prbs_rx_synced prbs_checker_synced =
     fold (\<lambda>synced status. if \<not> synced then False else status) prbs_checker_synced True"

subsection \<open>add_agc\<close>

text \<open>The signals of \<^verbatim>\<open>rx_cdc.source\<close> on one step of the sys clock.\<close>

record rx_cdc_source =
  rx_valid :: bool
  rx_ready :: bool
  rx_data :: "64 word"

definition agc_ce :: "rx_cdc_source \<Rightarrow> bool" where
  "agc_ce b = (rx_valid b \<and> rx_ready b)"

definition rx1_iqs :: "rx_cdc_source \<Rightarrow> 16 word list" where
  "rx1_iqs b = [field16 0 (rx_data b), field16 1 (rx_data b)]"

definition rx2_iqs :: "rx_cdc_source \<Rightarrow> 16 word list" where
  "rx2_iqs b = [field16 2 (rx_data b), field16 3 (rx_data b)]"

text \<open>Modelled from the spec: the full-scale test of \<^verbatim>\<open>AGCSaturationCount\<close>
  (\<^verbatim>\<open>gateware/ad9361/agc.py\<close>, which is not among the sources). The spec: I or Q
  reaches the representable extreme value, full positive or full negative scale. The
  fields tapped at \<^verbatim>\<open>rx_cdc.source\<close> are 12-bit samples sign-extended to 16 bits,
  whose extremes are 2047 and -2048.
\<close>

definition full_scale :: "16 word \<Rightarrow> bool" where
  "full_scale x = (sint x = 2047 \<or> sint x = - 2048)"

text \<open>Modelled from the spec: a threshold tier of \<^verbatim>\<open>AGCSaturationCount\<close>
  (\<^verbatim>\<open>gateware/ad9361/agc.py\<close>, which is not among the sources). The spec names two
  threshold tiers, "low" and "high", and gives neither their thresholds nor the
  comparison. Here a field reaches a threshold when it is at or above it, or at or
  below its two's-complement mirror on the negative side; a 12-bit sample reaches the
  threshold 2047 exactly at full positive scale 2047 and at full negative scale -2048.
\<close>

definition reaches :: "int \<Rightarrow> 16 word \<Rightarrow> bool" where
  "reaches threshold x = (threshold \<le> sint x \<or> sint x \<le> - threshold - 1)"

text \<open>Modelled from the spec: \<^verbatim>\<open>AGCSaturationCount\<close> of
  \<^verbatim>\<open>gateware/ad9361/agc.py\<close>, which is not among the sources; \<^verbatim>\<open>core.py\<close> gives
  it a clock enable \<^verbatim>\<open>ce\<close> and a list \<^verbatim>\<open>iqs\<close> of two fields. The spec: for each
  of two channel pairs and two threshold tiers the counter counts, across enabled
  cycles, how many times I or Q reaches the extreme value in its pair (once for a
  sample, as the spec's test of K samples says); it is a free-running accumulator with
  no reset of its own. The tier is what an instance holds beside its inputs: it is the
  parameter \<open>tier\<close>, the test a field passes when it counts for this instance. The
  spec gives the counter no width: it is a natural number.
\<close>

definition AGCSaturationCount ::
  "(16 word \<Rightarrow> bool) \<Rightarrow> bool \<Rightarrow> 16 word list \<Rightarrow> nat \<Rightarrow> nat" where
  "AGCSaturationCount tier ce iqs count = (if ce \<and> list_ex tier iqs then count + 1 else count)"

record agc_counters =
  agc_count_rx1_low :: nat
  agc_count_rx1_high :: nat
  agc_count_rx2_low :: nat
  agc_count_rx2_high :: nat


text \<open>
  \<^verbatim>\<open>add_agc\<close> of \<^verbatim>\<open>core.py\<close>: the four instances, each with the clock enable
  \<^verbatim>\<open>rx_cdc.source.valid & rx_cdc.source.ready\<close> and the two slices of its pair. The
  instances named \<^verbatim>\<open>_low\<close> are of the tier \<open>low\<close>, those named \<^verbatim>\<open>_high\<close> of the
  tier \<open>high\<close>.
\<close>

definition add_agc ::
  "(16 word \<Rightarrow> bool) \<Rightarrow> (16 word \<Rightarrow> bool) \<Rightarrow> agc_counters \<Rightarrow> rx_cdc_source \<Rightarrow> agc_counters" where
  "add_agc low high s b =
     \<lparr> agc_count_rx1_low =
         AGCSaturationCount low (agc_ce b) (rx1_iqs b) (agc_count_rx1_low s),
       agc_count_rx1_high =
         AGCSaturationCount high (agc_ce b) (rx1_iqs b) (agc_count_rx1_high s),
       agc_count_rx2_low =
         AGCSaturationCount low (agc_ce b) (rx2_iqs b) (agc_count_rx2_low s),
       agc_count_rx2_high =
         AGCSaturationCount high (agc_ce b) (rx2_iqs b) (agc_count_rx2_high s) \<rparr>"

definition agc_run ::
  "(16 word \<Rightarrow> bool) \<Rightarrow> (16 word \<Rightarrow> bool) \<Rightarrow> rx_cdc_source list \<Rightarrow> agc_counters
     \<Rightarrow> agc_counters" where
  "agc_run low high bs s = foldl (add_agc low high) s bs"

section \<open>Bit-mode converters\<close>

text \<open>
  The CSR field \<^verbatim>\<open>_bitmode.fields.mode\<close> of \<^verbatim>\<open>core.py\<close>: 0 is the 12-bit mode
  (samples carried in 16 bits), 1 the 8-bit mode. \<^verbatim>\<open>core.py\<close> drives the
  \<^verbatim>\<open>mode\<close> input of both converters from this one field.
\<close>

definition mode_16bit :: bool where
  "mode_16bit = False"

definition mode_8bit :: bool where
  "mode_8bit = True"

definition tx_bitmode_mode :: "bool \<Rightarrow> bool" where
  "tx_bitmode_mode bitmode_fields_mode = bitmode_fields_mode"

definition rx_bitmode_mode :: "bool \<Rightarrow> bool" where
  "rx_bitmode_mode bitmode_fields_mode = bitmode_fields_mode"

text \<open>
  \<^verbatim>\<open>AD9361TXBitMode\<close> and \<^verbatim>\<open>AD9361RXBitMode\<close> come from
  \<^verbatim>\<open>gateware/ad9361/bitmode.py\<close>, which is not among the sources. They are modelled
  from section 4.4 of the spec, as functions on the stream of 64-bit words.
\<close>

definition fields16 :: "64 word \<Rightarrow> 16 word list" where
  "fields16 w = [field16 0 w, field16 1 w, field16 2 w, field16 3 w]"

definition field8 :: "nat \<Rightarrow> 64 word \<Rightarrow> 8 word" where
  "field8 k w = ucast (drop_bit (k * 8) w)"

fun cat8 :: "8 word list \<Rightarrow> 64 word" where
  "cat8 [] = 0"
| "cat8 (b # bs) = ucast b OR push_bit 8 (cat8 bs)"

text \<open>Modelled from the spec: the truncation of \<^verbatim>\<open>AD9361TXBitMode\<close> in 8-bit mode.
  The spec: truncate each field to its top 8 bits, an arithmetic shift right by the
  precision difference (12 - 8 = 4) that discards the low bits.
\<close>

definition truncate8 :: "16 word \<Rightarrow> 8 word" where
  "truncate8 f = ucast (signed_drop_bit 4 f)"

text \<open>Modelled from the spec: the extension of \<^verbatim>\<open>AD9361RXBitMode\<close> in 8-bit mode.
  The spec: sign-extend each packed 8-bit value back to 16 bits, replicating the sign
  bit upward.
\<close>

definition sign_extend8 :: "8 word \<Rightarrow> 16 word" where
  "sign_extend8 b = (if bit b 7 then ucast b OR 0xFF00 else ucast b)"

text \<open>Modelled from the spec: the 8-bit packing of \<^verbatim>\<open>AD9361TXBitMode\<close>. The spec:
  8 values per 64-bit word, so that two Sample Words make one packed word. The spec does
  not order the 8 values: they are taken in stream order from the least significant
  byte up, and a last word with no partner waits in the converter.
\<close>

fun pack8 :: "64 word list \<Rightarrow> 64 word list" where
  "pack8 (a # b # ws) = cat8 (map truncate8 (fields16 a @ fields16 b)) # pack8 ws"
| "pack8 ws = []"

text \<open>Modelled from the spec: the 8-bit unpacking of \<^verbatim>\<open>AD9361RXBitMode\<close>, the inverse
  arrangement: a packed word gives two Sample Words.
\<close>

definition unpack8 :: "64 word \<Rightarrow> 64 word list" where
  "unpack8 w =
     [cat16 (sign_extend8 (field8 0 w)) (sign_extend8 (field8 1 w))
            (sign_extend8 (field8 2 w)) (sign_extend8 (field8 3 w)),
      cat16 (sign_extend8 (field8 4 w)) (sign_extend8 (field8 5 w))
            (sign_extend8 (field8 6 w)) (sign_extend8 (field8 7 w))]"

text \<open>Modelled from the spec: \<^verbatim>\<open>AD9361TXBitMode\<close>. The spec: given the 16-bit mode,
  reproduce the four 16-bit sign-extended fields unchanged; given the 8-bit mode,
  truncate and pack.
\<close>

definition AD9361TXBitMode :: "bool \<Rightarrow> 64 word list \<Rightarrow> 64 word list" where
  "AD9361TXBitMode mode ws = (if mode = mode_8bit then pack8 ws else ws)"

text \<open>Modelled from the spec: \<^verbatim>\<open>AD9361RXBitMode\<close>. The spec: in 8-bit mode,
  sign-extend each packed value back to 16 bits; in 16-bit mode, pass through unchanged.
\<close>

definition AD9361RXBitMode :: "bool \<Rightarrow> 64 word list \<Rightarrow> 64 word list" where
  "AD9361RXBitMode mode ws = (if mode = mode_8bit then concat (map unpack8 ws) else ws)"

text \<open>A Sample and its Sample Word, in the layout \<^verbatim>\<open>core.py\<close> gives to the word.\<close>

record sample =
  IA :: "16 word"
  QA :: "16 word"
  IB :: "16 word"
  QB :: "16 word"

definition sample_word :: "sample \<Rightarrow> 64 word" where
  "sample_word s = cat16 (IA s) (QA s) (IB s) (QB s)"

definition word_sample :: "64 word \<Rightarrow> sample" where
  "word_sample w = \<lparr> IA = field16 0 w, QA = field16 1 w, IB = field16 2 w, QB = field16 3 w \<rparr>"

section \<open>AD9361CMOSPHY\<close>

text \<open>
  The inputs of one cycle of the \<^verbatim>\<open>rfic\<close> clock domain: the reset of the domain,
  the outputs of the IDDR primitives (\<^verbatim>\<open>rx_frame\<close>, \<^verbatim>\<open>rx_data_i\<close>,
  \<^verbatim>\<open>rx_data_q\<close>), the outputs of the two \<^verbatim>\<open>MultiReg\<close> synchronisers (\<^verbatim>\<open>mode\<close>,
  \<^verbatim>\<open>loopback\<close>), what the RFIC drives on \<^verbatim>\<open>sink\<close>, and \<^verbatim>\<open>source.ready\<close>.
\<close>

record cmos_inputs =
  rfic_rst :: bool
  rx_frame :: bool
  rx_data_i :: "12 word"
  rx_data_q :: "12 word"
  mode :: bool
  loopback :: bool
  sink :: phy_endpoint
  source_ready :: bool

text \<open>The registers of the \<^verbatim>\<open>rfic\<close> domain (the targets of \<^verbatim>\<open>self.sync.rfic\<close>).\<close>

record cmos_regs =
  rx_frame_d :: bool
  rx_frame_rising_d :: bool
  rx_data_ia :: "12 word"
  rx_data_qa :: "12 word"
  rx_data_ib :: "12 word"
  rx_data_qb :: "12 word"
  source :: phy_endpoint

text \<open>Every signal is declared without a reset value: its reset value is 0.\<close>

definition cmos_reset :: cmos_regs where
  "cmos_reset =
     \<lparr> rx_frame_d = False, rx_frame_rising_d = False,
       rx_data_ia = 0, rx_data_qa = 0, rx_data_ib = 0, rx_data_qb = 0,
       source = \<lparr> valid = False, ia = 0, qa = 0, ib = 0, qb = 0 \<rparr> \<rparr>"

definition rx_frame_rising :: "cmos_regs \<Rightarrow> cmos_inputs \<Rightarrow> bool" where
  "rx_frame_rising s i = (rx_frame i \<and> \<not> rx_frame_d s)"

text \<open>
  One clock edge. The statements under \<^verbatim>\<open>if False:\<close> (TX, dynamic loopback) are not
  part of the design: nothing reads \<^verbatim>\<open>mode\<close>, \<^verbatim>\<open>loopback\<close>, \<^verbatim>\<open>sink\<close> or
  \<^verbatim>\<open>source.ready\<close>.
\<close>

definition cmos_step :: "cmos_regs \<Rightarrow> cmos_inputs \<Rightarrow> cmos_regs" where
  "cmos_step s i =
     (if rfic_rst i then cmos_reset
      else \<lparr> rx_frame_d = rx_frame i,
             rx_frame_rising_d = rx_frame_rising s i,
             rx_data_ia = rx_data_i i,
             rx_data_qa = rx_data_q i,
             rx_data_ib = 0,
             rx_data_qb = 0,
             source = \<lparr> valid = True, ia = rx_data_ia s, qa = rx_data_qa s,
                        ib = rx_data_ib s, qb = rx_data_qb s \<rparr> \<rparr>)"

definition cmos_run :: "cmos_inputs list \<Rightarrow> cmos_regs \<Rightarrow> cmos_regs" where
  "cmos_run ins s = foldl cmos_step s ins"

text \<open>
  \<^verbatim>\<open>sink.ready\<close> has no driver outside \<^verbatim>\<open>if False:\<close>: it keeps its reset value.
\<close>

definition cmos_sink_ready :: "cmos_regs \<Rightarrow> cmos_inputs \<Rightarrow> bool" where
  "cmos_sink_ready s i = False"

section \<open>Sample Word layout\<close>

lemma high_nibble: "(0xF000 :: 16 word) = push_bit 12 (mask 4)"
  by (simp add: mask_eq_exp_minus_1)

lemma bit_12_word: "bit (x :: 12 word) n \<Longrightarrow> n < 12"
  by (auto dest: bit_imp_le_length)

lemma bit_16_word: "bit (x :: 16 word) n \<Longrightarrow> n < 16"
  by (auto dest: bit_imp_le_length)

lemma sign_extend_scast: "sign_extend x = scast x"
proof (rule bit_word_eqI)
  fix n assume "n < LENGTH(16)"
  then have n: "n < 16" by simp
  consider "n < 11" | "n = 11" | "12 \<le> n" by linarith
  then show "bit (sign_extend x) n = bit (scast x :: 16 word) n"
  proof cases
    case 1
    then show ?thesis
      using n by (auto simp: sign_extend_def high_nibble bit_simps min_def)
  next
    case 2
    then show ?thesis
      by (auto simp: sign_extend_def high_nibble bit_simps)
  next
    case 3
    then show ?thesis
      using n by (auto simp: sign_extend_def high_nibble bit_simps min_def dest: bit_12_word)
  qed
qed

lemma sint_sign_extend: "sint (sign_extend x) = sint x"
  unfolding sign_extend_scast
  by (rule sint_up_scast) (simp add: is_up)

lemma ucast_sign_extend: "(ucast (sign_extend x) :: 12 word) = x"
  unfolding sign_extend_scast
  by (rule bit_word_eqI) (auto simp: bit_simps)

lemma field16_cat16_0: "field16 0 (cat16 f0 f1 f2 f3) = f0"
  unfolding field16_def cat16_def
  by (rule bit_word_eqI) (auto simp: bit_simps dest: bit_16_word)

lemma field16_cat16_1: "field16 (Suc 0) (cat16 f0 f1 f2 f3) = f1"
  unfolding field16_def cat16_def
  by (rule bit_word_eqI) (auto simp: bit_simps dest: bit_16_word)

lemma field16_cat16_2: "field16 2 (cat16 f0 f1 f2 f3) = f2"
  unfolding field16_def cat16_def
  by (rule bit_word_eqI) (auto simp: bit_simps dest: bit_16_word)

lemma field16_cat16_3: "field16 3 (cat16 f0 f1 f2 f3) = f3"
  unfolding field16_def cat16_def
  by (rule bit_word_eqI) (auto simp: bit_simps dest: bit_16_word)

lemmas field16_cat16 = field16_cat16_0 field16_cat16_1 field16_cat16_2 field16_cat16_3

lemma rx_fields:
  "field16 0 (rx_cdc_sink_data s) = sign_extend (ia s)"
  "field16 1 (rx_cdc_sink_data s) = sign_extend (qa s)"
  "field16 2 (rx_cdc_sink_data s) = sign_extend (ib s)"
  "field16 3 (rx_cdc_sink_data s) = sign_extend (qb s)"
  by (simp_all add: rx_cdc_sink_data_def field16_cat16)

lemma tx_fields:
  "ia (tx_phy_sink v d) = ucast (field16 0 d)"
  "qa (tx_phy_sink v d) = ucast (field16 1 d)"
  "ib (tx_phy_sink v d) = ucast (field16 2 d)"
  "qb (tx_phy_sink v d) = ucast (field16 3 d)"
  by (simp_all add: tx_phy_sink_def)

lemma tx_bits:
  "bit (ia (tx_phy_sink v d)) n = (n < 12 \<and> bit d n)"
  "bit (qa (tx_phy_sink v d)) n = (n < 12 \<and> bit d (16 + n))"
  "bit (ib (tx_phy_sink v d)) n = (n < 12 \<and> bit d (32 + n))"
  "bit (qb (tx_phy_sink v d)) n = (n < 12 \<and> bit d (48 + n))"
  by (auto simp: tx_phy_sink_def field16_def bit_simps)

lemma tx_of_rx:
  "tx_phy_sink v (rx_cdc_sink_data s) =
     \<lparr> valid = v, ia = ia s, qa = qa s, ib = ib s, qb = qb s \<rparr>"
  using rx_fields [of s] by (simp add: tx_phy_sink_def ucast_sign_extend)

text \<open>
  C1. RX: the 64-bit word entering the RX CDC holds, from the least significant bits
  up, IA, QA, IB, QB, each in its own 16 bits and each the sign extension of the 12-bit
  PHY field: it reads as the same signed number. TX: the 64-bit word leaving the TX
  CDC is split into \<^verbatim>\<open>phy.sink.ia/qa/ib/qb\<close> from bits [0:16], [16:32], [32:48],
  [48:64]; a field of \<^verbatim>\<open>phy.sink\<close> is 12 bits wide and takes the low 12 bits of
  its slice, so that bit \<open>n\<close> of field \<open>k\<close> is bit \<open>16 k + n\<close> of the word, and the
  fields of a word built on the RX side are the PHY fields it was built from.
\<close>

theorem sample_word_layout:
  "field16 0 (rx_cdc_sink_data s) = sign_extend (ia s) \<and>
   field16 1 (rx_cdc_sink_data s) = sign_extend (qa s) \<and>
   field16 2 (rx_cdc_sink_data s) = sign_extend (ib s) \<and>
   field16 3 (rx_cdc_sink_data s) = sign_extend (qb s) \<and>
   sint (field16 0 (rx_cdc_sink_data s)) = sint (ia s) \<and>
   sint (field16 1 (rx_cdc_sink_data s)) = sint (qa s) \<and>
   sint (field16 2 (rx_cdc_sink_data s)) = sint (ib s) \<and>
   sint (field16 3 (rx_cdc_sink_data s)) = sint (qb s) \<and>
   ia (tx_phy_sink v d) = ucast (field16 0 d) \<and>
   qa (tx_phy_sink v d) = ucast (field16 1 d) \<and>
   ib (tx_phy_sink v d) = ucast (field16 2 d) \<and>
   qb (tx_phy_sink v d) = ucast (field16 3 d) \<and>
   bit (ia (tx_phy_sink v d)) n = (n < 12 \<and> bit d n) \<and>
   bit (qa (tx_phy_sink v d)) n = (n < 12 \<and> bit d (16 + n)) \<and>
   bit (ib (tx_phy_sink v d)) n = (n < 12 \<and> bit d (32 + n)) \<and>
   bit (qb (tx_phy_sink v d)) n = (n < 12 \<and> bit d (48 + n)) \<and>
   tx_phy_sink v (rx_cdc_sink_data s) =
     \<lparr> valid = v, ia = ia s, qa = qa s, ib = ib s, qb = qb s \<rparr>"
  using rx_fields [of s] tx_fields [of v d] tx_bits [of v d n] tx_of_rx [of v s]
  by (simp only: sint_sign_extend simp_thms)

section \<open>Bit-mode round trip\<close>

lemma word_sample_sample_word: "word_sample (sample_word s) = s"
  by (simp add: word_sample_def sample_word_def field16_cat16)

text \<open>
  C2. A stream of Samples, each carried in its Sample Word, packed by the TX Bit-Mode
  converter and then unpacked by the RX Bit-Mode converter, both reading the 16-bit
  mode from the one CSR field, comes out as the same stream of Samples.
\<close>

theorem bitmode_16bit_roundtrip:
  "map word_sample
     (AD9361RXBitMode (rx_bitmode_mode mode_16bit)
        (AD9361TXBitMode (tx_bitmode_mode mode_16bit) (map sample_word ss))) = ss"
  by (simp add: AD9361RXBitMode_def AD9361TXBitMode_def rx_bitmode_mode_def tx_bitmode_mode_def
      mode_16bit_def mode_8bit_def word_sample_sample_word comp_def)

section \<open>PRBS self-test\<close>

text \<open>
  C3, as the spec states it, asks that the generator's output replace all four fields
  under self-test. With the generator at \<open>0xABC\<close> and the datapath word carrying
  \<open>0x111, 0x222, 0x333, 0x444\<close>, the PHY sink carries the generator on \<open>ia\<close> and
  \<open>ib\<close> and the datapath on \<open>qa\<close> and \<open>qb\<close>.
\<close>

theorem prbs_replaces_all_counterexample:
  "ia (add_prbs_phy_sink True 0xABC (tx_phy_sink False (cat16 0x111 0x222 0x333 0x444))) = 0xABC \<and>
   qa (add_prbs_phy_sink True 0xABC (tx_phy_sink False (cat16 0x111 0x222 0x333 0x444))) = 0x222 \<and>
   ib (add_prbs_phy_sink True 0xABC (tx_phy_sink False (cat16 0x111 0x222 0x333 0x444))) = 0xABC \<and>
   qb (add_prbs_phy_sink True 0xABC (tx_phy_sink False (cat16 0x111 0x222 0x333 0x444))) = 0x444 \<and>
   qa (add_prbs_phy_sink True 0xABC (tx_phy_sink False (cat16 0x111 0x222 0x333 0x444))) \<noteq> 0xABC \<and>
   qb (add_prbs_phy_sink True 0xABC (tx_phy_sink False (cat16 0x111 0x222 0x333 0x444))) \<noteq> 0xABC"
  by (simp add: add_prbs_phy_sink_def tx_phy_sink_def field16_cat16)

text \<open>
  C3, amended. Whenever the PRBS self-test enable flag is set, \<^verbatim>\<open>phy.sink.valid\<close> is
  1 and the generator's output is on \<^verbatim>\<open>phy.sink.ia\<close> and \<^verbatim>\<open>phy.sink.ib\<close>, while
  \<^verbatim>\<open>phy.sink.qa\<close> and \<^verbatim>\<open>phy.sink.qb\<close> keep the datapath values; whenever the flag
  is clear the PHY sink carries the datapath values unchanged.
\<close>

theorem prbs_substitution:
  "valid (add_prbs_phy_sink True g (tx_phy_sink v d)) = True \<and>
   ia (add_prbs_phy_sink True g (tx_phy_sink v d)) = g \<and>
   ib (add_prbs_phy_sink True g (tx_phy_sink v d)) = g \<and>
   qa (add_prbs_phy_sink True g (tx_phy_sink v d)) = qa (tx_phy_sink v d) \<and>
   qb (add_prbs_phy_sink True g (tx_phy_sink v d)) = qb (tx_phy_sink v d) \<and>
   add_prbs_phy_sink False g (tx_phy_sink v d) = tx_phy_sink v d"
  by (simp add: add_prbs_phy_sink_def)

text \<open>
  C4. The two checkers observe \<^verbatim>\<open>phy.source.ia\<close> and \<^verbatim>\<open>phy.source.ib\<close>, and the
  status bit \<^verbatim>\<open>prbs_rx.fields.synced\<close> is the conjunction of their \<^verbatim>\<open>synced\<close>
  outputs: 1 exactly when both are synchronized, 0 as soon as one is not.
\<close>

theorem prbs_rx_synced_and:
  "prbs_rx_synced [synced_a, synced_b] = (synced_a \<and> synced_b) \<and>
   prbs_checker_i src = [ia src, ib src]"
  by (simp add: prbs_rx_synced_def prbs_checker_i_def)

section \<open>AGC saturation counters\<close>

lemma agc_run_snoc:
  "agc_run low high (bs @ [b]) s = add_agc low high (agc_run low high bs s) b"
  by (simp add: agc_run_def)

lemma agc_run_Nil: "agc_run low high [] s = s"
  by (simp add: agc_run_def)

lemma agc_stalled:
  "add_agc low high s (b\<lparr>rx_ready := False\<rparr>) = s"
  "add_agc low high s (b\<lparr>rx_valid := False\<rparr>) = s"
  by (simp_all add: add_agc_def AGCSaturationCount_def agc_ce_def)

lemma count_rx1_low_run:
  "agc_count_rx1_low (agc_run low high bs s) =
     agc_count_rx1_low s +
     length (filter (\<lambda>b. rx_valid b \<and> rx_ready b \<and>
       (low (field16 0 (rx_data b)) \<or> low (field16 1 (rx_data b)))) bs)"
  by (induction bs rule: rev_induct)
     (simp_all add: agc_run_snoc agc_run_Nil add_agc_def AGCSaturationCount_def agc_ce_def
        rx1_iqs_def rx2_iqs_def)

lemma count_rx1_high_run:
  "agc_count_rx1_high (agc_run low high bs s) =
     agc_count_rx1_high s +
     length (filter (\<lambda>b. rx_valid b \<and> rx_ready b \<and>
       (high (field16 0 (rx_data b)) \<or> high (field16 1 (rx_data b)))) bs)"
  by (induction bs rule: rev_induct)
     (simp_all add: agc_run_snoc agc_run_Nil add_agc_def AGCSaturationCount_def agc_ce_def
        rx1_iqs_def rx2_iqs_def)

lemma count_rx2_low_run:
  "agc_count_rx2_low (agc_run low high bs s) =
     agc_count_rx2_low s +
     length (filter (\<lambda>b. rx_valid b \<and> rx_ready b \<and>
       (low (field16 2 (rx_data b)) \<or> low (field16 3 (rx_data b)))) bs)"
  by (induction bs rule: rev_induct)
     (simp_all add: agc_run_snoc agc_run_Nil add_agc_def AGCSaturationCount_def agc_ce_def
        rx1_iqs_def rx2_iqs_def)

lemma count_rx2_high_run:
  "agc_count_rx2_high (agc_run low high bs s) =
     agc_count_rx2_high s +
     length (filter (\<lambda>b. rx_valid b \<and> rx_ready b \<and>
       (high (field16 2 (rx_data b)) \<or> high (field16 3 (rx_data b)))) bs)"
  by (induction bs rule: rev_induct)
     (simp_all add: agc_run_snoc agc_run_Nil add_agc_def AGCSaturationCount_def agc_ce_def
        rx1_iqs_def rx2_iqs_def)

lemma sint_12_range: "- 2048 \<le> sint (y :: 12 word) \<and> sint y \<le> 2047"
  using sint_ge [of y] sint_lt [of y] by simp

lemma reaches_full_scale: "reaches 2047 (sign_extend y) = full_scale (sign_extend y)"
  using sint_12_range [of y] by (auto simp: reaches_def full_scale_def sint_sign_extend)

text \<open>
  C5. A step on which \<^verbatim>\<open>rx_cdc.source.ready\<close> is false, or on which
  \<^verbatim>\<open>rx_cdc.source.valid\<close> is false, leaves the four counters as they are. Over any
  sequence of steps each counter grows by exactly the number of steps on which valid and
  ready both hold and I or Q of its pair (bits [0:16] and [16:32] of the word for
  \<^verbatim>\<open>rx1\<close>, bits [32:48] and [48:64] for \<^verbatim>\<open>rx2\<close>) passes the test of its tier,
  whatever the tiers are; with the full-scale test, K transferred samples at full scale
  in a pair add exactly K to the counters of that pair.
\<close>

theorem agc_counts_transfers_only:
  "add_agc low high s (b\<lparr>rx_ready := False\<rparr>) = s \<and>
   add_agc low high s (b\<lparr>rx_valid := False\<rparr>) = s \<and>
   agc_count_rx1_low (agc_run low high bs s) =
     agc_count_rx1_low s +
     length (filter (\<lambda>b. rx_valid b \<and> rx_ready b \<and>
       (low (field16 0 (rx_data b)) \<or> low (field16 1 (rx_data b)))) bs) \<and>
   agc_count_rx1_high (agc_run low high bs s) =
     agc_count_rx1_high s +
     length (filter (\<lambda>b. rx_valid b \<and> rx_ready b \<and>
       (high (field16 0 (rx_data b)) \<or> high (field16 1 (rx_data b)))) bs) \<and>
   agc_count_rx2_low (agc_run low high bs s) =
     agc_count_rx2_low s +
     length (filter (\<lambda>b. rx_valid b \<and> rx_ready b \<and>
       (low (field16 2 (rx_data b)) \<or> low (field16 3 (rx_data b)))) bs) \<and>
   agc_count_rx2_high (agc_run low high bs s) =
     agc_count_rx2_high s +
     length (filter (\<lambda>b. rx_valid b \<and> rx_ready b \<and>
       (high (field16 2 (rx_data b)) \<or> high (field16 3 (rx_data b)))) bs) \<and>
   agc_count_rx1_low (agc_run full_scale full_scale bs s) =
     agc_count_rx1_low s +
     length (filter (\<lambda>b. rx_valid b \<and> rx_ready b \<and>
       (full_scale (field16 0 (rx_data b)) \<or> full_scale (field16 1 (rx_data b)))) bs) \<and>
   agc_count_rx1_high (agc_run full_scale full_scale bs s) =
     agc_count_rx1_high s +
     length (filter (\<lambda>b. rx_valid b \<and> rx_ready b \<and>
       (full_scale (field16 0 (rx_data b)) \<or> full_scale (field16 1 (rx_data b)))) bs) \<and>
   agc_count_rx2_low (agc_run full_scale full_scale bs s) =
     agc_count_rx2_low s +
     length (filter (\<lambda>b. rx_valid b \<and> rx_ready b \<and>
       (full_scale (field16 2 (rx_data b)) \<or> full_scale (field16 3 (rx_data b)))) bs) \<and>
   agc_count_rx2_high (agc_run full_scale full_scale bs s) =
     agc_count_rx2_high s +
     length (filter (\<lambda>b. rx_valid b \<and> rx_ready b \<and>
       (full_scale (field16 2 (rx_data b)) \<or> full_scale (field16 3 (rx_data b)))) bs)"
  using agc_stalled [of low high s b]
    count_rx1_low_run [of low high bs s] count_rx1_high_run [of low high bs s]
    count_rx2_low_run [of low high bs s] count_rx2_high_run [of low high bs s]
    count_rx1_low_run [of full_scale full_scale bs s]
    count_rx1_high_run [of full_scale full_scale bs s]
    count_rx2_low_run [of full_scale full_scale bs s]
    count_rx2_high_run [of full_scale full_scale bs s]
  by (simp only: simp_thms)



section \<open>CMOS PHY\<close>

lemma cmos_run_snoc: "cmos_run (ins @ [i]) s = cmos_step (cmos_run ins s) i"
  by (simp add: cmos_run_def)

lemma cmos_channel_b_regs:
  "rx_data_ib (cmos_run ins cmos_reset) = 0 \<and> rx_data_qb (cmos_run ins cmos_reset) = 0 \<and>
   ib (source (cmos_run ins cmos_reset)) = 0 \<and> qb (source (cmos_run ins cmos_reset)) = 0"
proof (induction ins rule: rev_induct)
  case Nil
  show ?case by (simp add: cmos_run_def cmos_reset_def)
next
  case (snoc i ins)
  then show ?case by (simp add: cmos_run_snoc cmos_step_def cmos_reset_def)
qed

text \<open>
  C6. In the CMOS PHY, after any sequence of cycles from reset, whatever the mode flag
  and the data on the receive pins in each cycle, the fields \<open>ib\<close> and \<open>qb\<close> of the
  source endpoint are zero.
\<close>

theorem cmos_channel_b_zero:
  "ib (source (cmos_run ins cmos_reset)) = 0 \<and> qb (source (cmos_run ins cmos_reset)) = 0"
  using cmos_channel_b_regs [of ins] by simp

text \<open>
  C7. In the CMOS PHY, after a clock edge on which the domain is not in reset, the
  source endpoint's valid is asserted, from any state and so in every state reached
  from reset, and whatever \<^verbatim>\<open>source.ready\<close> is on that cycle.
\<close>

theorem cmos_source_valid:
  assumes "\<not> rfic_rst i"
  shows "valid (source (cmos_step s (i\<lparr>source_ready := r\<rparr>))) \<and>
         valid (source (cmos_run (ins @ [i\<lparr>source_ready := r\<rparr>]) cmos_reset))"
  using assms by (simp add: cmos_run_snoc cmos_step_def)

theorem cmos_source_valid_witness:
  "\<not> rfic_rst \<lparr> rfic_rst = False, rx_frame = True, rx_data_i = 5, rx_data_q = 9, mode = True,
       loopback = False, sink = \<lparr> valid = False, ia = 0, qa = 0, ib = 0, qb = 0 \<rparr>,
       source_ready = True \<rparr> \<and>
   valid (source (cmos_step cmos_reset
     (\<lparr> rfic_rst = False, rx_frame = True, rx_data_i = 5, rx_data_q = 9, mode = True,
       loopback = False, sink = \<lparr> valid = False, ia = 0, qa = 0, ib = 0, qb = 0 \<rparr>,
       source_ready = True \<rparr> \<lparr>source_ready := False\<rparr>)))"
  using cmos_source_valid [of "\<lparr> rfic_rst = False, rx_frame = True, rx_data_i = 5,
       rx_data_q = 9, mode = True,
       loopback = False, sink = \<lparr> valid = False, ia = 0, qa = 0, ib = 0, qb = 0 \<rparr>,
       source_ready = True \<rparr>" cmos_reset False "[]"]
  by simp

text \<open>
  C8, as the spec states it, asks that the transmit path on the CMOS variant be
  rejected at configuration time with an error. Building the RFIC with
  \<^verbatim>\<open>phy_mode='cmos'\<close> returns the design, its TX pipeline connected to the sink of the
  CMOS PHY, and no error.
\<close>

theorem cmos_transmit_rejected_counterexample:
  "AD9361RFIC ''cmos'' =
     Inr \<lparr> phy = AD9361CMOSPHY, tx_connected = True, rx_connected = True,
           enable_datapath_reset = True \<rparr>"
  by (simp add: AD9361RFIC_def phy_cls_def)

text \<open>
  C8, amended. On the receive-only CMOS PHY variant the transmit path and dynamic
  loopback are accepted at configuration time without an error and do nothing: building
  the RFIC with \<^verbatim>\<open>phy_mode='cmos'\<close> succeeds, the loopback flag and what is driven on
  \<^verbatim>\<open>sink\<close> have no effect on the PHY, and \<^verbatim>\<open>sink.ready\<close> stays 0, so that no word
  is transferred from the TX CDC to the PHY.
\<close>

theorem cmos_transmit_loopback_no_effect:
  "AD9361RFIC ''cmos'' =
     Inr \<lparr> phy = AD9361CMOSPHY, tx_connected = True, rx_connected = True,
           enable_datapath_reset = True \<rparr> \<and>
   cmos_step s (i\<lparr>loopback := l, sink := k\<rparr>) = cmos_step s i \<and>
   cmos_sink_ready s (i\<lparr>loopback := l, sink := k\<rparr>) = False \<and>
   tx_transfer (r\<lparr>phy_sink_ready := cmos_sink_ready s i\<rparr>) = False"
  by (simp add: AD9361RFIC_def phy_cls_def cmos_step_def rx_frame_rising_def cmos_sink_ready_def
      tx_transfer_def tx_cdc_source_ready_def)

section \<open>The datapath enable\<close>

text \<open>
  C9. With \<^verbatim>\<open>enable_datapath\<close> at 0, a word offered by the TX CDC while the PHY sink
  is ready is transferred, and a word offered by the PHY source while the RX CDC is
  ready is transferred: the control gates neither pipeline.
\<close>

theorem datapath_disabled_transfers:
  "tx_transfer \<lparr> enable_datapath = False, tx_cdc_source_valid = True,
       tx_cdc_source_data = 0x0004000300020001, phy_sink_ready = True,
       phy_source = \<lparr> valid = True, ia = 1, qa = 2, ib = 3, qb = 4 \<rparr>,
       rx_cdc_sink_ready = True \<rparr> \<and>
   rx_transfer \<lparr> enable_datapath = False, tx_cdc_source_valid = True,
       tx_cdc_source_data = 0x0004000300020001, phy_sink_ready = True,
       phy_source = \<lparr> valid = True, ia = 1, qa = 2, ib = 3, qb = 4 \<rparr>,
       rx_cdc_sink_ready = True \<rparr>"
  by (simp add: tx_transfer_def rx_transfer_def phy_sink_def tx_phy_sink_def
      tx_cdc_source_ready_def rx_cdc_sink_valid_def phy_source_ready_def)

end
